theory Spec2Isabelle
  imports Main "HOL-Library.Monad_Syntax" "HOL-Library.Sublist"
begin

section \<open>Data model of the client (lib/types.ts)\<close>

text \<open>
  The interfaces of \<^verbatim>\<open>lib/types.ts\<close> as records. An optional property
  (\<^verbatim>\<open>description?: string\<close>) is an \<open>option\<close>; a \<^verbatim>\<open>number\<close> that holds
  a database identifier is an \<open>int\<close>; a \<^verbatim>\<open>Record<string, string[]>\<close> is an
  association list, in the order of the object's keys. Field names follow the source; a
  name shared by two interfaces, or one that Isabelle reserves, carries the interface's
  name in front (\<open>scrape_id\<close> for \<^verbatim>\<open>ScrapeResult.id\<close>).
\<close>

record Project =
  project_ident :: int
  project_name :: string
  project_url :: string
  description :: "string option"
  tags :: "string list"
  project_created_at :: string
  updated_at :: string

record ScrapeResult =
  scrape_id :: int
  project_id :: int
  scrape_url :: string
  status :: string
  summary :: string
  key_points :: "string list"
  entities :: "(string \<times> string list) list option"
  topics :: "string list option"
  scrape_method :: string
  ai_provider :: string
  error_message :: "string option"
  created_at :: string

datatype Role = user_role | assistant_role

record ChatMessage =
  role :: Role
  content :: string

record FormField =
  field_type :: string
  field_name :: string
  field_id :: "string option"
  placeholder :: "string option"
  required :: bool
  field_value :: "string option"
  options :: "(string \<times> string) list option"

record DetectedForm =
  formIndex :: int
  action :: string
  form_method :: string
  form_fields :: "FormField list"

record UserResponse =
  user_id :: int
  email_address :: string
  is_active :: bool
  projects :: "Project list option"

section \<open>The HTTP client (lib/api.ts)\<close>

text \<open>
  A call of the axios instance \<^verbatim>\<open>api\<close> either resolves with the response (its
  \<^verbatim>\<open>data\<close>) or rejects with an error. Of the error the handlers read
  \<^verbatim>\<open>e.response?.status\<close> (absent when no response arrived),
  \<^verbatim>\<open>e.message\<close> and \<^verbatim>\<open>e.response.data.detail\<close>.
\<close>

record AxiosError =
  response_status :: "nat option"
  message :: string
  detail :: "string option"

datatype 'a Outcome = Resolved 'a | Rejected AxiosError

text \<open>
  The body of \<^verbatim>\<open>POST /api/scrape\<close> as \<^verbatim>\<open>handleScrape\<close> reads it: the flag
  \<^verbatim>\<open>data.success\<close>, the text \<^verbatim>\<open>data.error\<close>, and the object itself, which
  is stored as the page's ScrapeResult.
\<close>

record ScrapeResponse =
  success :: bool
  response_error :: "string option"
  scrape :: ScrapeResult

record LoginResponse =
  access_token :: string
  login_user :: UserResponse

text \<open>
  The body of \<^verbatim>\<open>POST /api/forms/detect\<close> as \<^verbatim>\<open>handleDetectForms\<close> reads it:
  \<^verbatim>\<open>data.success\<close> and \<^verbatim>\<open>data.details.forms\<close>; \<open>None\<close> is a body without
  \<^verbatim>\<open>details\<close>.
\<close>

record FormsResponse =
  forms_success :: bool
  details :: "DetectedForm list option"

text \<open>The requests the client sends, one constructor per function of \<^verbatim>\<open>lib/api.ts\<close>
  and per direct use of \<^verbatim>\<open>api.post\<close> in the pages.\<close>

datatype Request =
    PostScrape string "string option" "int option" "string option"
  | GetProjects
  | GetProject int
  | PostChat int string
  | PostFormsDetect string
  | GetChatHistory int
  | GetLatestScrape int
  | GetProjectScrapes int
  | PostRegister string string
  | PostLogin string string

fun endpoint :: "Request \<Rightarrow> string" where
  "endpoint (PostScrape u n p s) = ''/api/scrape''"
| "endpoint GetProjects = ''/api/projects''"
| "endpoint (GetProject i) = ''/api/projects/{id}''"
| "endpoint (PostChat p m) = ''/api/chat''"
| "endpoint (PostFormsDetect u) = ''/api/forms/detect''"
| "endpoint (GetChatHistory p) = ''/api/chat/{projectId}/history''"
| "endpoint (GetLatestScrape p) = ''/api/projects/{projectId}/latest-scrape''"
| "endpoint (GetProjectScrapes p) = ''/api/projects/{projectId}/scrapes''"
| "endpoint (PostRegister e p) = ''/api/auth/register''"
| "endpoint (PostLogin e p) = ''/api/auth/login''"

text \<open>The server the client talks to: what each request is answered with.\<close>

record Backend =
  post_scrape :: "Request \<Rightarrow> ScrapeResponse Outcome"
  post_chat :: "Request \<Rightarrow> string Outcome"
  post_forms_detect :: "Request \<Rightarrow> FormsResponse Outcome"
  get_latest_scrape :: "Request \<Rightarrow> ScrapeResult option Outcome"
  get_project_scrapes :: "Request \<Rightarrow> ScrapeResult list Outcome"
  post_register :: "Request \<Rightarrow> UserResponse option Outcome"
  post_login :: "Request \<Rightarrow> LoginResponse Outcome"

text \<open>
  \<^verbatim>\<open>getLatestScrape\<close>: the \<^verbatim>\<open>try\<close> returns \<^verbatim>\<open>response.data\<close>; the
  \<^verbatim>\<open>catch\<close> returns null for a 404 and null for every other error. The result type
  keeps a place for a propagated error (\<open>Inl\<close>), which \<^verbatim>\<open>getProjectScrapes\<close>, with no
  \<^verbatim>\<open>try\<close>, uses.
\<close>

definition getLatestScrape :: "Backend \<Rightarrow> int \<Rightarrow> AxiosError + ScrapeResult option" where
  "getLatestScrape b projectId =
     (case get_latest_scrape b (GetLatestScrape projectId) of
        Resolved d \<Rightarrow> Inr d
      | Rejected e \<Rightarrow> (if response_status e = Some 404 then Inr None else Inr None))"


text \<open>\<^verbatim>\<open>getProjectScrapes\<close>, likewise without a \<^verbatim>\<open>try\<close>.\<close>

definition getProjectScrapes :: "Backend \<Rightarrow> int \<Rightarrow> AxiosError + ScrapeResult list" where
  "getProjectScrapes b projectId =
     (case get_project_scrapes b (GetProjectScrapes projectId) of
        Resolved d \<Rightarrow> Inr d
      | Rejected e \<Rightarrow> Inl e)"

section \<open>JavaScript helpers\<close>

text \<open>
  \<^verbatim>\<open>x || d\<close> on a string that may be absent: the default \<open>d\<close> when \<open>x\<close> is
  undefined or the empty string.
\<close>

fun or_default :: "string option \<Rightarrow> string \<Rightarrow> string" where
  "or_default None d = d"
| "or_default (Some s) d = (if s = [] then d else s)"

text \<open>\<^verbatim>\<open>!projectId\<close> on \<^verbatim>\<open>number | null\<close>: null and 0 are falsy.\<close>

fun falsy_number :: "int option \<Rightarrow> bool" where
  "falsy_number None = True"
| "falsy_number (Some n) = (n = 0)"

section \<open>The authentication provider (lib/auth-context.tsx)\<close>

text \<open>
  The provider's state: the React state \<^verbatim>\<open>user\<close> and \<^verbatim>\<open>loading\<close>, the two
  items of \<^verbatim>\<open>localStorage\<close>, and the \<^verbatim>\<open>Authorization\<close> header of the axios
  instance.
\<close>

record AuthState =
  user :: "UserResponse option"
  auth_loading :: bool
  token_item :: "string option"
  user_item :: "UserResponse option"
  authorization :: "string option"

text \<open>What a handler does to the world outside the React state, in the order it does it.\<close>

datatype Effect =
    Send Request
  | Confirm string
  | Alert string
  | RouterPush string
  | PreventDefault
  | ConsoleError
  | Download string string string

definition isAuthenticated :: "AuthState \<Rightarrow> bool" where
  "isAuthenticated a = (user a \<noteq> None)"

definition login :: "string \<Rightarrow> UserResponse \<Rightarrow> AuthState \<Rightarrow> AuthState \<times> Effect list" where
  "login token userData a =
     (a\<lparr>token_item := Some token, user_item := Some userData,
        authorization := Some (''Bearer '' @ token), user := Some userData\<rparr>,
      [RouterPush ''/dashboard''])"

definition logout :: "AuthState \<Rightarrow> AuthState \<times> Effect list" where
  "logout a =
     (a\<lparr>token_item := None, user_item := None, authorization := None, user := None\<rparr>,
      [RouterPush ''/login''])"

section \<open>The home page (HomeContent in app/layout.tsx)\<close>

datatype Tab = summary_tab | chat_tab | forms_tab

text \<open>The \<^verbatim>\<open>useState\<close> cells of \<^verbatim>\<open>HomeContent\<close>, under the source's names.\<close>

record HomeState =
  url :: string
  project :: string
  loading :: bool
  activeTab :: Tab
  result :: "ScrapeResult option"
  projectId :: "int option"
  detectedForms :: "DetectedForm list option"
  error :: "string option"
  showAdvanced :: bool
  selector :: string
  chatInput :: string
  chatHistory :: "ChatMessage list"

text \<open>The browser: what the user answers to a \<^verbatim>\<open>confirm\<close> dialog, and the message
  of the TypeError the engine throws when a property of \<^verbatim>\<open>undefined\<close> is read.\<close>

record Browser =
  confirm_answer :: "string \<Rightarrow> bool"
  type_error_text :: string

definition login_prompt :: string where
  "login_prompt = ''You must be logged in to save a named project. Go to login?''"

text \<open>
  \<^verbatim>\<open>handleScrape\<close>. The handler is asynchronous; the model runs it to its end
  against the server's answer and returns the state after the last \<^verbatim>\<open>setState\<close>
  and the effects in order. \<^verbatim>\<open>scrapeWebsite(url, project, undefined, selector)\<close>
  sends the project name and the selector as they are, and no project id.
\<close>

definition handleScrape ::
  "Backend \<Rightarrow> Browser \<Rightarrow> AuthState \<Rightarrow> HomeState \<Rightarrow> HomeState \<times> Effect list" where
  "handleScrape b w a st =
     (if url st = [] then (st, [])
      else if project st \<noteq> [] \<and> \<not> isAuthenticated a then
        (if confirm_answer w login_prompt
         then (st, [Confirm login_prompt, RouterPush ''/login''])
         else (st, [Confirm login_prompt]))
      else
        (let st1 = st\<lparr>loading := True, error := None\<rparr>;
             req = PostScrape (url st) (Some (project st)) None (Some (selector st))
         in case post_scrape b req of
              Resolved data \<Rightarrow>
                (if success data
                 then (st1\<lparr>result := Some (scrape data),
                           projectId := Some (project_id (scrape data)),
                           loading := False\<rparr>, [Send req])
                 else (st1\<lparr>error := Some (or_default (response_error data) ''Scraping failed''),
                           loading := False\<rparr>, [Send req]))
            | Rejected err \<Rightarrow>
                (st1\<lparr>error := Some (or_default (Some (message err)) ''Something went wrong''),
                     loading := False\<rparr>, [Send req])))"

text \<open>
  \<^verbatim>\<open>handleChat\<close>: nothing happens on an empty input or without a project; otherwise
  the input is cleared, the question is appended, the request is sent, and an assistant
  message is appended: \<^verbatim>\<open>data.response\<close>, or the text of the \<^verbatim>\<open>catch\<close>.
\<close>

definition handleChat :: "Backend \<Rightarrow> HomeState \<Rightarrow> HomeState \<times> Effect list" where
  "handleChat b st =
     (if chatInput st = [] \<or> falsy_number (projectId st) then (st, [])
      else
        (let msg = chatInput st;
             req = PostChat (the (projectId st)) msg;
             st1 = st\<lparr>chatInput := [],
                      chatHistory := chatHistory st @ [\<lparr>role = user_role, content = msg\<rparr>]\<rparr>
         in case post_chat b req of
              Resolved response \<Rightarrow>
                (st1\<lparr>chatHistory := chatHistory st1 @
                       [\<lparr>role = assistant_role, content = response\<rparr>]\<rparr>, [Send req])
            | Rejected err \<Rightarrow>
                (st1\<lparr>chatHistory := chatHistory st1 @
                       [\<lparr>role = assistant_role, content = ''Failed to get response''\<rparr>]\<rparr>,
                 [Send req])))"


section \<open>JSON text (the built-ins the export uses)\<close>

text \<open>
  \<^verbatim>\<open>handleExport\<close> calls \<^verbatim>\<open>JSON.stringify(result, null, 2)\<close>. The section
  models that built-in and \<^verbatim>\<open>JSON.parse\<close> on texts, for the values a ScrapeResult is
  made of. A number is an integer (the identifiers of the data model, far below the
  range where JavaScript changes to an exponent); a character is a code unit up to
  U+00FF; an object is the list of its properties in the order of its keys.
\<close>

datatype json =
    JNull
  | JBool bool
  | JNumber int
  | JString string
  | JArray "json list"
  | JObject "(string \<times> json) list"

text \<open>The code unit of a character.\<close>

definition char_code :: "char \<Rightarrow> nat" where
  "char_code c = of_char c"

text \<open>\<^verbatim>\<open>String(n)\<close> for an integer \<open>n\<close>, as a template literal and
  \<^verbatim>\<open>JSON.stringify\<close> write it: decimal digits, a minus sign in front of a negative.\<close>

definition digit_char :: "nat \<Rightarrow> char" where
  "digit_char d = char_of (48 + d)"

fun nat_digits :: "nat \<Rightarrow> string" where
  "nat_digits n = (if n < 10 then [digit_char n] else nat_digits (n div 10) @ [digit_char (n mod 10)])"

declare nat_digits.simps [simp del]

definition show_int :: "int \<Rightarrow> string" where
  "show_int i = (if i < 0 then CHR ''-'' # nat_digits (nat (- i)) else nat_digits (nat i))"

text \<open>\<^verbatim>\<open>JSON.stringify\<close> of a string: the quotation mark and the backslash are escaped,
  the control characters below U+0020 are written \<^verbatim>\<open>\b \t \n \f \r\<close> or
  \<^verbatim>\<open>\u00XX\<close> with lower-case digits, every other character stands for itself.\<close>

definition hex_char :: "nat \<Rightarrow> char" where
  "hex_char d = (if d < 10 then char_of (48 + d) else char_of (87 + d))"

definition escape_char :: "char \<Rightarrow> string" where
  "escape_char c =
     (if char_code c = 34 then [CHR 0x5C, CHR 0x22]
      else if char_code c = 92 then [CHR 0x5C, CHR 0x5C]
      else if char_code c = 8 then [CHR 0x5C, CHR ''b'']
      else if char_code c = 9 then [CHR 0x5C, CHR ''t'']
      else if char_code c = 10 then [CHR 0x5C, CHR ''n'']
      else if char_code c = 12 then [CHR 0x5C, CHR ''f'']
      else if char_code c = 13 then [CHR 0x5C, CHR ''r'']
      else if char_code c < 32
      then [CHR 0x5C, CHR ''u'', CHR ''0'', CHR ''0'', hex_char (char_code c div 16), hex_char (char_code c mod 16)]
      else [c])"

definition quote :: "string \<Rightarrow> string" where
  "quote s = CHR 0x22 # concat (map escape_char s) @ [CHR 0x22]"

text \<open>\<^verbatim>\<open>JSON.stringify(value, null, 2)\<close>: the gap is two spaces. An empty array is
  \<^verbatim>\<open>[]\<close> and an empty object \<^verbatim>\<open>{}\<close>; otherwise every element or property
  stands on a line of its own, indented one level deeper, the lines separated by a
  comma, and the closing bracket on a line at the outer level. A property is its quoted
  key, a colon, a space and its value.\<close>

definition newline :: string where
  "newline = [CHR 0x0A]"

definition pad :: "nat \<Rightarrow> string" where
  "pad l = replicate (2 * l) CHR '' ''"

function (sequential) stringify_at :: "nat \<Rightarrow> json \<Rightarrow> string"
  and stringify_elements :: "nat \<Rightarrow> json list \<Rightarrow> string"
  and stringify_members :: "nat \<Rightarrow> (string \<times> json) list \<Rightarrow> string" where
  "stringify_at l JNull = ''null''"
| "stringify_at l (JBool b) = (if b then ''true'' else ''false'')"
| "stringify_at l (JNumber i) = show_int i"
| "stringify_at l (JString s) = quote s"
| "stringify_at l (JArray xs) =
     (if xs = [] then ''[]''
      else ''['' @ newline @ pad (Suc l) @ stringify_elements (Suc l) xs @ newline @ pad l @ '']'')"
| "stringify_at l (JObject kvs) =
     (if kvs = [] then ''{}''
      else ''{'' @ newline @ pad (Suc l) @ stringify_members (Suc l) kvs @ newline @ pad l @ ''}'')"
| "stringify_elements l [] = []"
| "stringify_elements l [x] = stringify_at l x"
| "stringify_elements l (x # xs) =
     stringify_at l x @ '','' @ newline @ pad l @ stringify_elements l xs"
| "stringify_members l [] = []"
| "stringify_members l [(k, v)] = quote k @ '': '' @ stringify_at l v"
| "stringify_members l ((k, v) # kvs) =
     quote k @ '': '' @ stringify_at l v @ '','' @ newline @ pad l @ stringify_members l kvs"
  by pat_completeness auto
termination
  by (relation "measure (\<lambda>x. case x of
          Inl (l, v) \<Rightarrow> size v
        | Inr (Inl (l, xs)) \<Rightarrow> size_list size xs
        | Inr (Inr (l, kvs)) \<Rightarrow> size_list (size_prod (\<lambda>k. 0) size) kvs)")
     auto

text \<open>\<^verbatim>\<open>JSON.parse\<close>, for the JSON texts without fractions and exponents. White space is
  space, tab, line feed and carriage return.\<close>

definition is_space :: "char \<Rightarrow> bool" where
  "is_space c = (char_code c = 32 \<or> char_code c = 9 \<or> char_code c = 10 \<or> char_code c = 13)"

fun skip_ws :: "string \<Rightarrow> string" where
  "skip_ws [] = []"
| "skip_ws (c # r) = (if is_space c then skip_ws r else c # r)"

text \<open>An integer: an optional minus sign and decimal digits, with no zero in front of
  another digit.\<close>

definition is_digit :: "char \<Rightarrow> bool" where
  "is_digit c = (48 \<le> char_code c \<and> char_code c \<le> 57)"












definition opener :: "char \<Rightarrow> bool" where
  "opener c = (is_digit c \<or> char_code c \<in> {45, 34, 91, 123, 110, 116, 102})"

section \<open>The export of a result (handleExport in app/layout.tsx)\<close>


















section \<open>The registration page (app/register/page.tsx)\<close>

record RegisterState =
  email :: string
  password :: string
  confirmPassword :: string
  register_loading :: bool
  register_error :: string

text \<open>The \<^verbatim>\<open>catch\<close> block of \<^verbatim>\<open>handleRegister\<close>.\<close>

definition register_catch :: "AxiosError \<Rightarrow> RegisterState \<Rightarrow> RegisterState \<times> Effect list" where
  "register_catch err st =
     (if response_status err = Some 400
      then (st\<lparr>register_error := or_default (detail err) ''Email already registered''\<rparr>, [])
      else (st\<lparr>register_error := ''Registration failed. Please try again.''\<rparr>, [ConsoleError]))"

text \<open>
  \<^verbatim>\<open>handleRegister\<close>: the error is cleared; differing passwords set the error and
  return; otherwise the account is registered and, when the answer has a body, logged in
  (\<^verbatim>\<open>login\<close> of the provider when the answer has a non-empty token). The
  \<^verbatim>\<open>finally\<close> block clears the loading flag on every path past the check.
\<close>

definition handleRegister ::
  "Backend \<Rightarrow> RegisterState \<Rightarrow> AuthState \<Rightarrow> RegisterState \<times> AuthState \<times> Effect list" where
  "handleRegister b st a =
     (let st0 = st\<lparr>register_error := []\<rparr> in
      if password st \<noteq> confirmPassword st
      then (st0\<lparr>register_error := ''Passwords do not match''\<rparr>, a, [PreventDefault])
      else
        (let st1 = st0\<lparr>register_loading := True\<rparr>;
             reg = PostRegister (email st) (password st);
             lgn = PostLogin (email st) (password st)
         in case post_register b reg of
              Rejected err \<Rightarrow>
                (let (st2, es) = register_catch err st1
                 in (st2\<lparr>register_loading := False\<rparr>, a, [PreventDefault, Send reg] @ es))
            | Resolved None \<Rightarrow>
                (st1\<lparr>register_loading := False\<rparr>, a, [PreventDefault, Send reg])
            | Resolved (Some u) \<Rightarrow>
                (case post_login b lgn of
                   Rejected err \<Rightarrow>
                     (let (st2, es) = register_catch err st1
                      in (st2\<lparr>register_loading := False\<rparr>, a,
                          [PreventDefault, Send reg, Send lgn] @ es))
                 | Resolved r \<Rightarrow>
                     (if access_token r \<noteq> []
                      then (let (a', es) = login (access_token r) (login_user r) a
                            in (st1\<lparr>register_loading := False\<rparr>, a',
                                [PreventDefault, Send reg, Send lgn] @ es))
                      else (st1\<lparr>register_loading := False\<rparr>, a,
                            [PreventDefault, Send reg, Send lgn])))))"

section \<open>The Orchestrator (spec section 4.1)\<close>

text \<open>
  The server's pipeline is not among the sources: only the client is. The definitions of
  this section and of the next follow the words of the spec; each says which.
\<close>

text \<open>Modelled from the spec: the three fetcher strategies of section 4.2 (the fetchers
  themselves are missing), in the order of increasing cost in which they are tried.\<close>

datatype Fetcher = Direct | Rendered | Automated

text \<open>Modelled from the spec: the typed failures a fetcher reports (section 4.1). Empty
  content, a block or challenge signature and a timeout are recoverable; a malformed URL,
  a DNS resolution failure and an HTTP client error are fatal.\<close>

datatype Failure =
    EmptyContent
  | BlockSignature
  | Timeout
  | MalformedUrl
  | DnsFailure
  | HttpStatus nat

text \<open>Modelled from the spec: "a fatal failure (malformed URL, DNS resolution failure,
  explicit HTTP client error 4xx other than rate-limit)" (section 4.1); 429 is the
  rate-limit status. Every other failure is recoverable.\<close>

fun fatal :: "Failure \<Rightarrow> bool" where
  "fatal MalformedUrl = True"
| "fatal DnsFailure = True"
| "fatal (HttpStatus c) = (400 \<le> c \<and> c < 500 \<and> c \<noteq> 429)"
| "fatal EmptyContent = False"
| "fatal BlockSignature = False"
| "fatal Timeout = False"

text \<open>Modelled from the spec: the capability of section 4.2,
  "fetch(url, timeout) -> raw markup or typed failure".\<close>

datatype FetchResult = Markup string | Failed Failure

text \<open>Modelled from the spec: the Orchestrator "normalizes failures" (section 2); empty
  content is a recoverable failure (section 4.1), whichever way the fetcher reports it.\<close>

fun normalise :: "FetchResult \<Rightarrow> FetchResult" where
  "normalise (Markup c) = (if c = [] then Failed EmptyContent else Markup c)"
| "normalise (Failed e) = Failed e"

text \<open>Modelled from the spec: the states of section 4.1.\<close>

datatype OrchState =
  NOT_STARTED | TRYING_STATIC | TRYING_RENDERED | TRYING_AUTOMATED | SUCCEEDED | EXHAUSTED

text \<open>Modelled from the spec: the fetcher a state tries (the lightweight HTTP fetch in
  \<open>TRYING_STATIC\<close>, the headless rendering in \<open>TRYING_RENDERED\<close>, the browser automation
  in \<open>TRYING_AUTOMATED\<close>).\<close>

fun fetcher_of :: "OrchState \<Rightarrow> Fetcher option" where
  "fetcher_of TRYING_STATIC = Some Direct"
| "fetcher_of TRYING_RENDERED = Some Rendered"
| "fetcher_of TRYING_AUTOMATED = Some Automated"
| "fetcher_of NOT_STARTED = None"
| "fetcher_of SUCCEEDED = None"
| "fetcher_of EXHAUSTED = None"

text \<open>Modelled from the spec: the escalation order
  \<open>NOT_STARTED \<rightarrow> TRYING_STATIC \<rightarrow> TRYING_RENDERED \<rightarrow> TRYING_AUTOMATED \<rightarrow> EXHAUSTED\<close>
  of section 4.1.\<close>

fun escalate :: "OrchState \<Rightarrow> OrchState" where
  "escalate NOT_STARTED = TRYING_STATIC"
| "escalate TRYING_STATIC = TRYING_RENDERED"
| "escalate TRYING_RENDERED = TRYING_AUTOMATED"
| "escalate TRYING_AUTOMATED = EXHAUSTED"
| "escalate SUCCEEDED = SUCCEEDED"
| "escalate EXHAUSTED = EXHAUSTED"

text \<open>Modelled from the spec: the world a scrape runs in. \<open>fetch w f u n\<close> is what fetcher
  \<open>f\<close> reports for URL \<open>u\<close> on its first try (\<open>n = 0\<close>) and on its retry (\<open>n = 1\<close>), a
  timeout being one of the reports; \<open>transient w e\<close> says whether the recoverable failure
  \<open>e\<close> is retried within the fetcher ("e.g., transient network blips").\<close>

record World =
  fetch :: "Fetcher \<Rightarrow> string \<Rightarrow> nat \<Rightarrow> FetchResult"
  transient :: "Failure \<Rightarrow> bool"

text \<open>Modelled from the spec: what the Orchestrator holds during a scrape: the state, the
  retries spent in the current fetcher, the method that succeeded and its markup ("the
  outcome records which method succeeded"), the most recent failure ("the outcome carries
  the most recent failure detail"), and the fetchers tried so far, one entry per try.\<close>

record Machine =
  state :: OrchState
  retries :: nat
  succeeded_method :: "Fetcher option"
  raw_markup :: string
  last_failure :: "Failure option"
  attempts :: "Fetcher list"

text \<open>Modelled from the spec: the machine before the first transition.\<close>

definition start :: Machine where
  "start = \<lparr>state = NOT_STARTED, retries = 0, succeeded_method = None, raw_markup = [],
            last_failure = None, attempts = []\<rparr>"

text \<open>Modelled from the spec: one transition (section 4.1). Markup ends the scrape in
  \<open>SUCCEEDED\<close>; a fatal failure "short-circuits to \<open>EXHAUSTED\<close> without further
  escalation"; a recoverable failure is retried "at most" once within the fetcher "before
  that fetcher is marked failed and escalation proceeds".\<close>

definition step :: "World \<Rightarrow> string \<Rightarrow> Machine \<Rightarrow> Machine" where
  "step w u m =
     (case fetcher_of (state m) of
        None \<Rightarrow> m\<lparr>state := escalate (state m)\<rparr>
      | Some f \<Rightarrow>
          (case normalise (fetch w f u (retries m)) of
             Markup c \<Rightarrow>
               m\<lparr>state := SUCCEEDED, succeeded_method := Some f, raw_markup := c,
                 attempts := attempts m @ [f]\<rparr>
           | Failed e \<Rightarrow>
               if fatal e
               then m\<lparr>state := EXHAUSTED, last_failure := Some e,
                      attempts := attempts m @ [f]\<rparr>
               else if retries m = 0 \<and> transient w e
               then m\<lparr>retries := 1, last_failure := Some e, attempts := attempts m @ [f]\<rparr>
               else m\<lparr>state := escalate (state m), retries := 0, last_failure := Some e,
                      attempts := attempts m @ [f]\<rparr>))"

text \<open>Modelled from the spec: the two final states of section 4.1.\<close>

fun terminal :: "OrchState \<Rightarrow> bool" where
  "terminal SUCCEEDED = True"
| "terminal EXHAUSTED = True"
| "terminal NOT_STARTED = False"
| "terminal TRYING_STATIC = False"
| "terminal TRYING_RENDERED = False"
| "terminal TRYING_AUTOMATED = False"

text \<open>The number of states still ahead of a state; it bounds the run.\<close>

fun rank :: "OrchState \<Rightarrow> nat" where
  "rank NOT_STARTED = 4"
| "rank TRYING_STATIC = 3"
| "rank TRYING_RENDERED = 2"
| "rank TRYING_AUTOMATED = 1"
| "rank SUCCEEDED = 0"
| "rank EXHAUSTED = 0"

lemma step_decreases:
  "\<not> terminal (state m) \<Longrightarrow>
   2 * rank (state (step w u m)) + (if retries (step w u m) = 0 then 1 else 0)
     < 2 * rank (state m) + (if retries m = 0 then 1 else 0)"
  by (cases "state m"; cases "normalise (fetch w (the (fetcher_of (state m))) u (retries m))")
     (simp_all add: step_def)

text \<open>Modelled from the spec: a scrape, \<open>scrape(url, scope_selector?)\<close> of section 4.1,
  as the list of the machines it goes through, from the given one to a final state.\<close>

function run :: "World \<Rightarrow> string \<Rightarrow> Machine \<Rightarrow> Machine list" where
  "run w u m = (if terminal (state m) then [m] else m # run w u (step w u m))"
  by pat_completeness auto
termination
  by (relation "measure (\<lambda>(w, u, m). 2 * rank (state m) + (if retries m = 0 then 1 else 0))")
     (simp_all add: step_decreases)

text \<open>Modelled from the spec: "URLs that the direct fetcher can serve" (section 8): the
  direct fetcher returns non-empty markup on its first try, or fails on it with a
  recoverable failure that is retried and returns non-empty markup on the retry.\<close>

definition direct_serves :: "World \<Rightarrow> string \<Rightarrow> bool" where
  "direct_serves w u =
     (case normalise (fetch w Direct u 0) of
        Markup c \<Rightarrow> True
      | Failed e \<Rightarrow>
          \<not> fatal e \<and> transient w e \<and>
          (case normalise (fetch w Direct u 1) of Markup c \<Rightarrow> True | Failed e' \<Rightarrow> False))"

section \<open>The Retrieval Index and the Chat Engine (spec section 4.5)\<close>

text \<open>Modelled from the spec: an IndexChunk of section 3 (the index is missing): "chunk
  text, embedding vector, owning project id, owning scrape-result id". The type of the
  vectors is a parameter.\<close>

record 'v IndexChunk =
  chunk_text :: string
  embedding :: 'v
  owner_project :: int
  owner_result :: int

text \<open>Modelled from the spec: the configuration of the index: the embedding function,
  used for indexing and for questions alike, the similarity of two vectors (in any linear
  order of scores), and K.\<close>

record ('v, 's) Retrieval =
  embed_text :: "string \<Rightarrow> 'v"
  similarity :: "'v \<Rightarrow> 'v \<Rightarrow> 's"
  top_k :: nat

text \<open>Modelled from the spec: the chunks "keyed by project id" (section 4.5): those of
  the index that the project owns.\<close>

definition project_chunks :: "'v IndexChunk list \<Rightarrow> int \<Rightarrow> 'v IndexChunk list" where
  "project_chunks idx pid = filter (\<lambda>c. owner_project c = pid) idx"

text \<open>Modelled from the spec: ranking "by similarity": insertion into a list kept in
  descending order of score.\<close>

fun insert_ranked :: "('a \<Rightarrow> 's::linorder) \<Rightarrow> 'a \<Rightarrow> 'a list \<Rightarrow> 'a list" where
  "insert_ranked score x [] = [x]"
| "insert_ranked score x (y # ys) =
     (if score y < score x then x # y # ys else y # insert_ranked score x ys)"

text \<open>Modelled from the spec: the chunks in descending order of score.\<close>

definition ranked :: "('a \<Rightarrow> 's::linorder) \<Rightarrow> 'a list \<Rightarrow> 'a list" where
  "ranked score xs = foldr (insert_ranked score) xs []"

text \<open>Modelled from the spec: "embed the question with the same embedding function used
  for indexing; retrieve the top-K chunks by similarity scoped strictly to project_id"
  (section 4.5).\<close>

definition retrieve ::
  "('v, 's::linorder) Retrieval \<Rightarrow> 'v IndexChunk list \<Rightarrow> int \<Rightarrow> string \<Rightarrow> 'v IndexChunk list"
  where
  "retrieve cfg idx pid question =
     take (top_k cfg)
       (ranked (\<lambda>c. similarity cfg (embed_text cfg question) (embedding c))
          (project_chunks idx pid))"

text \<open>Modelled from the spec: a ChatMessage of section 3 as the server stores it:
  "project id, role, content".\<close>

record StoredMessage =
  message_project :: int
  message_role :: Role
  message_content :: string

text \<open>Modelled from the spec: the language model behind the provider chain: how a prompt
  is composed from the retrieved chunks, the recent history and the question, how many
  messages count as recent, and what the model answers to a prompt.\<close>

record LanguageModel =
  compose_prompt :: "string list \<Rightarrow> StoredMessage list \<Rightarrow> string \<Rightarrow> string"
  history_window :: nat
  complete :: "string \<Rightarrow> string"

text \<open>Modelled from the spec: the state of the Chat Engine: the index, the ChatMessage
  log of all projects, and the prompts sent to the language model so far.\<close>

record 'v Engine =
  chunk_index :: "'v IndexChunk list"
  chat_log :: "StoredMessage list"
  llm_calls :: "string list"

text \<open>Modelled from the spec: what a chat turn yields: the answer, the chunks the answer
  was grounded in, and the state of the engine after the turn.\<close>

record 'v ChatTurn =
  answer :: string
  grounding :: "'v IndexChunk list"
  engine :: "'v Engine"

text \<open>Modelled from the spec: the explicit "no content available" answer of section 4.5.\<close>

definition no_content_answer :: string where
  "no_content_answer = ''no content available''"

text \<open>Modelled from the spec: the last \<open>n\<close> messages of a project's log, the "recent
  conversation history".\<close>

definition recent_history :: "nat \<Rightarrow> StoredMessage list \<Rightarrow> int \<Rightarrow> StoredMessage list" where
  "recent_history n msgs pid =
     (let mine = filter (\<lambda>m. message_project m = pid) msgs
      in drop (length mine - n) mine)"

text \<open>Modelled from the spec: \<open>chat(project_id, message)\<close> (sections 4.5 and 6). With no
  chunk of the project the fixed answer is given "rather than invoking the language
  model"; otherwise the question is embedded, the top-K chunks of the project are
  retrieved, the prompt is composed and the model is called. Both the question and the
  answer are appended to the log ("written on every chat turn").\<close>

definition chat ::
  "('v, 's::linorder) Retrieval \<Rightarrow> LanguageModel \<Rightarrow> 'v Engine \<Rightarrow> int \<Rightarrow> string \<Rightarrow> 'v ChatTurn"
  where
  "chat cfg lm e pid question =
     (let turn = (\<lambda>a. [\<lparr>message_project = pid, message_role = user_role,
                        message_content = question\<rparr>,
                       \<lparr>message_project = pid, message_role = assistant_role,
                        message_content = a\<rparr>])
      in if project_chunks (chunk_index e) pid = []
         then \<lparr>answer = no_content_answer, grounding = [],
               engine = e\<lparr>chat_log := chat_log e @ turn no_content_answer\<rparr>\<rparr>
         else
           (let chunks = retrieve cfg (chunk_index e) pid question;
                prompt = compose_prompt lm (map chunk_text chunks)
                           (recent_history (history_window lm) (chat_log e) pid) question;
                a = complete lm prompt
            in \<lparr>answer = a, grounding = chunks,
                 engine = e\<lparr>chat_log := chat_log e @ turn a,
                            llm_calls := llm_calls e @ [prompt]\<rparr>\<rparr>))"

section \<open>Form detection (spec section 4.3)\<close>










section \<open>Concrete states and servers\<close>

text \<open>
  The states the components start in (the arguments of their \<^verbatim>\<open>useState\<close> calls)
  and small servers, used to evaluate the handlers at concrete inputs.
\<close>

definition signed_out :: AuthState where
  "signed_out = \<lparr>user = None, auth_loading = False, token_item = None,
                  user_item = None, authorization = None\<rparr>"

definition home_initial :: HomeState where
  "home_initial = \<lparr>url = [], project = [], loading = False, activeTab = summary_tab,
                    result = None, projectId = None, detectedForms = None, error = None,
                    showAdvanced = False, selector = [], chatInput = [], chatHistory = []\<rparr>"

definition register_initial :: RegisterState where
  "register_initial = \<lparr>email = [], password = [], confirmPassword = [],
                        register_loading = False, register_error = []\<rparr>"

definition not_found :: AxiosError where
  "not_found = \<lparr>response_status = Some 404,
                 message = ''Request failed with status code 404'', detail = None\<rparr>"

definition network_error :: AxiosError where
  "network_error = \<lparr>response_status = None, message = ''Network Error'', detail = None\<rparr>"

text \<open>A server that answers every request with 404, and one that cannot be reached.\<close>

definition backend_404 :: Backend where
  "backend_404 = \<lparr>post_scrape = (\<lambda>r. Rejected not_found),
                   post_chat = (\<lambda>r. Rejected not_found),
                   post_forms_detect = (\<lambda>r. Rejected not_found),
                   get_latest_scrape = (\<lambda>r. Rejected not_found),
                   get_project_scrapes = (\<lambda>r. Rejected not_found),
                   post_register = (\<lambda>r. Rejected not_found),
                   post_login = (\<lambda>r. Rejected not_found)\<rparr>"

definition backend_down :: Backend where
  "backend_down = \<lparr>post_scrape = (\<lambda>r. Rejected network_error),
                    post_chat = (\<lambda>r. Rejected network_error),
                    post_forms_detect = (\<lambda>r. Rejected network_error),
                    get_latest_scrape = (\<lambda>r. Rejected network_error),
                    get_project_scrapes = (\<lambda>r. Rejected network_error),
                    post_register = (\<lambda>r. Rejected network_error),
                    post_login = (\<lambda>r. Rejected network_error)\<rparr>"

definition always_yes :: Browser where
  "always_yes = \<lparr>confirm_answer = (\<lambda>q. True),
                  type_error_text = ''Cannot read properties of undefined''\<rparr>"

text \<open>The home page with a URL and a project name typed in, nobody signed in.\<close>

definition named_scrape :: HomeState where
  "named_scrape = home_initial\<lparr>url := ''https://example.com'', project := ''demo''\<rparr>"

text \<open>The home page of project 1 with a question typed into the chat box.\<close>

definition chat_ready :: HomeState where
  "chat_ready = home_initial\<lparr>projectId := Some 1, chatInput := ''hi''\<rparr>"

text \<open>The registration form with two different passwords.\<close>

definition mismatched :: RegisterState where
  "mismatched = register_initial\<lparr>email := ''a@b.c'', password := ''secret1'',
                                  confirmPassword := ''secret2''\<rparr>"

text \<open>A world whose direct fetcher is answered 404 while the other two would succeed,
  and one whose direct fetcher serves the page.\<close>

definition world_404 :: World where
  "world_404 =
     \<lparr>fetch = (\<lambda>f u n. if f = Direct then Failed (HttpStatus 404) else Markup ''<p>ok</p>''),
      transient = (\<lambda>e. True)\<rparr>"

definition world_static :: World where
  "world_static =
     \<lparr>fetch = (\<lambda>f u n. if f = Direct then Markup ''<p>ok</p>'' else Failed Timeout),
      transient = (\<lambda>e. True)\<rparr>"

text \<open>An index of four chunks, three of project 1 and one of project 2, with the length
  of a text as its embedding and the negated distance as similarity.\<close>

definition toy_retrieval :: "(int, int) Retrieval" where
  "toy_retrieval = \<lparr>embed_text = (\<lambda>s. int (length s)),
                     similarity = (\<lambda>q v. - abs (q - v)), top_k = 2\<rparr>"

definition toy_index :: "int IndexChunk list" where
  "toy_index =
     [\<lparr>chunk_text = ''alpha'', embedding = 5, owner_project = 1, owner_result = 10\<rparr>,
      \<lparr>chunk_text = ''be'', embedding = 2, owner_project = 2, owner_result = 20\<rparr>,
      \<lparr>chunk_text = ''gam'', embedding = 3, owner_project = 1, owner_result = 11\<rparr>,
      \<lparr>chunk_text = ''delta!'', embedding = 6, owner_project = 1, owner_result = 11\<rparr>]"

definition toy_engine :: "int Engine" where
  "toy_engine = \<lparr>chunk_index = toy_index, chat_log = [], llm_calls = []\<rparr>"

definition toy_model :: LanguageModel where
  "toy_model = \<lparr>compose_prompt = (\<lambda>chunks history q. concat chunks @ q),
                 history_window = 4, complete = (\<lambda>prompt. ''made up'')\<rparr>"








section \<open>Claim C7: getLatestScrape never throws\<close>

text \<open>
  C7. For every project id and every server, \<^verbatim>\<open>getLatestScrape\<close> returns a
  ScrapeResult or null and never propagates an error; when the server answers the
  request with status 404 the result is null.
\<close>

theorem getLatestScrape_total:
  "(\<exists>r. getLatestScrape b pid = Inr r) \<and>
   (\<forall>e. getLatestScrape b pid \<noteq> Inl e) \<and>
   (\<forall>e. get_latest_scrape b (GetLatestScrape pid) = Rejected e \<and>
        response_status e = Some 404 \<longrightarrow> getLatestScrape b pid = Inr None)"
  by (cases "get_latest_scrape b (GetLatestScrape pid)") (auto simp: getLatestScrape_def)

theorem getLatestScrape_total_witness:
  "get_latest_scrape backend_404 (GetLatestScrape 7) = Rejected not_found \<and>
   response_status not_found = Some 404 \<and>
   getLatestScrape backend_404 7 = Inr None"
  using getLatestScrape_total [of backend_404 7]
  by (simp add: backend_404_def not_found_def)

section \<open>Claim C9: no scrape of a named project without a session\<close>

text \<open>
  C9. In every state where the project name is non-empty and nobody is authenticated,
  \<^verbatim>\<open>handleScrape\<close> sends no request (so none to the scrape endpoint), leaves the
  page's state as it is, and does nothing beyond asking for confirmation and, on a yes,
  navigating to the login page.
\<close>

theorem handleScrape_needs_login:
  "project st \<noteq> [] \<and> \<not> isAuthenticated a \<longrightarrow>
     (\<forall>r. Send r \<notin> set (snd (handleScrape b w a st))) \<and>
     fst (handleScrape b w a st) = st \<and>
     set (snd (handleScrape b w a st)) \<subseteq> {Confirm login_prompt, RouterPush ''/login''}"
  by (simp add: handleScrape_def)

theorem handleScrape_needs_login_witness:
  "project named_scrape \<noteq> [] \<and> \<not> isAuthenticated signed_out \<and>
   handleScrape backend_404 always_yes signed_out named_scrape =
     (named_scrape, [Confirm login_prompt, RouterPush ''/login''])"
  using handleScrape_needs_login [of named_scrape signed_out backend_404 always_yes]
  by (simp add: handleScrape_def named_scrape_def home_initial_def signed_out_def
      isAuthenticated_def always_yes_def)

section \<open>Claim C10: a password mismatch stops the registration\<close>

text \<open>
  C10. For every submission whose password and confirmation differ,
  \<^verbatim>\<open>handleRegister\<close> sends no request (neither registration nor login), leaves the
  authentication state as it is, and sets the error to "Passwords do not match"; the
  other fields of the form keep their values.
\<close>

theorem handleRegister_mismatch:
  "password st \<noteq> confirmPassword st \<longrightarrow>
     (\<forall>r. Send r \<notin> set (snd (snd (handleRegister b st a)))) \<and>
     fst (snd (handleRegister b st a)) = a \<and>
     register_error (fst (handleRegister b st a)) = ''Passwords do not match'' \<and>
     fst (handleRegister b st a) = st\<lparr>register_error := ''Passwords do not match''\<rparr>"
  by (simp add: handleRegister_def)

theorem handleRegister_mismatch_witness:
  "password mismatched \<noteq> confirmPassword mismatched \<and>
   handleRegister backend_404 mismatched signed_out =
     (mismatched\<lparr>register_error := ''Passwords do not match''\<rparr>, signed_out, [PreventDefault])"
  using handleRegister_mismatch [of mismatched backend_404 signed_out]
  by (simp add: handleRegister_def mismatched_def register_initial_def)

section \<open>Claim C5: a chat turn appends two messages\<close>

text \<open>
  C5, as the code has it. A chat turn that is sent (the input is non-empty and the page
  has a project) appends exactly two messages to the history and changes nothing
  before them: the user's question, then an assistant message, which is the answer of
  the server when the request succeeds and the fixed text "Failed to get response" when
  it fails. A call with an empty input or without a project changes nothing. On every
  path the history before the call is a prefix of the history after it.
\<close>

theorem handleChat_appends_two:
  "(chatInput st \<noteq> [] \<and> \<not> falsy_number (projectId st) \<longrightarrow>
      chatHistory (fst (handleChat b st)) =
        chatHistory st @
          [\<lparr>role = user_role, content = chatInput st\<rparr>,
           \<lparr>role = assistant_role,
            content = (case post_chat b (PostChat (the (projectId st)) (chatInput st)) of
                         Resolved reply \<Rightarrow> reply
                       | Rejected err \<Rightarrow> ''Failed to get response'')\<rparr>]) \<and>
   (chatInput st = [] \<or> falsy_number (projectId st) \<longrightarrow> handleChat b st = (st, [])) \<and>
   prefix (chatHistory st) (chatHistory (fst (handleChat b st)))"
  by (auto simp: handleChat_def Let_def split: Outcome.splits)

theorem handleChat_appends_two_witness:
  "chatInput chat_ready \<noteq> [] \<and> \<not> falsy_number (projectId chat_ready) \<and>
   chatHistory (fst (handleChat backend_down chat_ready)) =
     [\<lparr>role = user_role, content = ''hi''\<rparr>,
      \<lparr>role = assistant_role, content = ''Failed to get response''\<rparr>] \<and>
   handleChat backend_down home_initial = (home_initial, [])"
  using handleChat_appends_two [of chat_ready backend_down]
        handleChat_appends_two [of home_initial backend_down]
  by (simp add: chat_ready_def home_initial_def backend_down_def)

text \<open>
  C5, as the spec states it, fails where the request fails: the server gave no answer,
  and the second message appended is the text of the \<^verbatim>\<open>catch\<close> block.
\<close>

theorem handleChat_failure_counterexample:
  "post_chat backend_down (PostChat 1 ''hi'') = Rejected network_error \<and>
   chatHistory (fst (handleChat backend_down chat_ready)) =
     chatHistory chat_ready @
       [\<lparr>role = user_role, content = ''hi''\<rparr>,
        \<lparr>role = assistant_role, content = ''Failed to get response''\<rparr>]"
  by (simp add: handleChat_def Let_def chat_ready_def home_initial_def backend_down_def)

section \<open>Claim C2: fatal failures and served URLs\<close>

lemma run_terminal: "terminal (state m) \<Longrightarrow> run w u m = [m]"
  by (subst run.simps) simp

lemma run_step: "\<not> terminal (state m) \<Longrightarrow> run w u m = m # run w u (step w u m)"
  by (subst run.simps) simp

lemma step_fatal:
  assumes "fetcher_of (state m) = Some f"
    and "normalise (fetch w f u (retries m)) = Failed e"
    and "fatal e"
  shows "step w u m =
           m\<lparr>state := EXHAUSTED, last_failure := Some e, attempts := attempts m @ [f]\<rparr>"
  using assms by (simp add: step_def)

lemma trying_not_terminal: "fetcher_of s = Some f \<Longrightarrow> \<not> terminal s"
  by (cases s) simp_all

lemma run_direct_first:
  assumes "normalise (fetch w Direct u 0) = Markup c"
  shows "run w u start =
      [start, start\<lparr>state := TRYING_STATIC\<rparr>,
       start\<lparr>state := SUCCEEDED, succeeded_method := Some Direct, raw_markup := c,
             attempts := [Direct]\<rparr>]"
  using assms by (simp add: run_step run_terminal start_def step_def)

lemma run_direct_retry:
  assumes "normalise (fetch w Direct u 0) = Failed e" "\<not> fatal e" "transient w e"
    and "normalise (fetch w Direct u 1) = Markup c"
  shows "run w u start =
      [start, start\<lparr>state := TRYING_STATIC\<rparr>,
       start\<lparr>state := TRYING_STATIC, retries := 1, last_failure := Some e,
             attempts := [Direct]\<rparr>,
       start\<lparr>state := SUCCEEDED, retries := 1, succeeded_method := Some Direct,
             raw_markup := c, last_failure := Some e, attempts := [Direct, Direct]\<rparr>]"
  using assms by (simp add: run_step run_terminal start_def step_def)

lemma run_direct_serves:
  assumes "direct_serves w u"
  shows "(map state (run w u start) = [NOT_STARTED, TRYING_STATIC, SUCCEEDED] \<or>
          map state (run w u start) = [NOT_STARTED, TRYING_STATIC, TRYING_STATIC, SUCCEEDED]) \<and>
         state (last (run w u start)) = SUCCEEDED \<and>
         succeeded_method (last (run w u start)) = Some Direct \<and>
         set (attempts (last (run w u start))) \<subseteq> {Direct}"
proof (cases "normalise (fetch w Direct u 0)")
  case (Markup c)
  show ?thesis
    unfolding run_direct_first [OF Markup] by (simp add: start_def)
next
  case (Failed e)
  with assms obtain c where
    e: "\<not> fatal e" "transient w e" and c: "normalise (fetch w Direct u 1) = Markup c"
    by (auto simp: direct_serves_def split: FetchResult.splits)
  show ?thesis
    unfolding run_direct_retry [OF Failed e c] by (simp add: start_def)
qed

text \<open>
  C2. Whenever the fetcher of the current state reports a fatal failure, the next state
  is \<open>EXHAUSTED\<close>, the run ends there, and the only try added is the one that failed: no
  later fetcher is attempted. For every URL the direct fetcher serves, the run never
  enters \<open>TRYING_RENDERED\<close> or \<open>TRYING_AUTOMATED\<close>: it ends in \<open>SUCCEEDED\<close> by the
  direct method, and only the direct fetcher was tried.
\<close>

theorem fatal_short_circuits:
  "(fetcher_of (state m) = Some f \<and> normalise (fetch w f u (retries m)) = Failed e \<and> fatal e
      \<longrightarrow> state (step w u m) = EXHAUSTED \<and>
          run w u m = [m, step w u m] \<and>
          attempts (step w u m) = attempts m @ [f] \<and>
          last_failure (step w u m) = Some e) \<and>
   (direct_serves w u
      \<longrightarrow> TRYING_RENDERED \<notin> set (map state (run w u start)) \<and>
          TRYING_AUTOMATED \<notin> set (map state (run w u start)) \<and>
          state (last (run w u start)) = SUCCEEDED \<and>
          succeeded_method (last (run w u start)) = Some Direct \<and>
          set (attempts (last (run w u start))) \<subseteq> {Direct})"
proof (intro conjI impI)
  assume h: "fetcher_of (state m) = Some f \<and>
             normalise (fetch w f u (retries m)) = Failed e \<and> fatal e"
  then have s: "step w u m =
      m\<lparr>state := EXHAUSTED, last_failure := Some e, attempts := attempts m @ [f]\<rparr>"
    by (simp add: step_fatal)
  show "state (step w u m) = EXHAUSTED" "attempts (step w u m) = attempts m @ [f]"
       "last_failure (step w u m) = Some e"
    by (simp_all add: s)
  from h have "\<not> terminal (state m)" by (simp add: trying_not_terminal)
  then have "run w u m = m # run w u (step w u m)" by (rule run_step)
  moreover have "terminal (state (step w u m))" by (simp add: s)
  then have "run w u (step w u m) = [step w u m]" by (rule run_terminal)
  ultimately show "run w u m = [m, step w u m]" by simp
next
  assume d: "direct_serves w u"
  note r = run_direct_serves [OF d]
  from r consider
      (first) "map state (run w u start) = [NOT_STARTED, TRYING_STATIC, SUCCEEDED]"
    | (retry) "map state (run w u start) =
                 [NOT_STARTED, TRYING_STATIC, TRYING_STATIC, SUCCEEDED]"
    by blast
  then have "set (map state (run w u start)) \<subseteq> {NOT_STARTED, TRYING_STATIC, SUCCEEDED}"
  proof cases
    case first
    show ?thesis unfolding first by simp
  next
    case retry
    show ?thesis unfolding retry by simp
  qed
  then show "TRYING_RENDERED \<notin> set (map state (run w u start))"
    and "TRYING_AUTOMATED \<notin> set (map state (run w u start))"
    by blast+
  from r show "state (last (run w u start)) = SUCCEEDED" by blast
  from r show "succeeded_method (last (run w u start)) = Some Direct" by blast
  from r show "set (attempts (last (run w u start))) \<subseteq> {Direct}" by blast
qed

theorem fatal_short_circuits_witness:
  "fetcher_of (state (start\<lparr>state := TRYING_STATIC\<rparr>)) = Some Direct \<and>
   normalise (fetch world_404 Direct ''http://x'' 0) = Failed (HttpStatus 404) \<and>
   fatal (HttpStatus 404) \<and>
   map state (run world_404 ''http://x'' (start\<lparr>state := TRYING_STATIC\<rparr>)) =
     [TRYING_STATIC, EXHAUSTED] \<and>
   direct_serves world_static ''http://x'' \<and>
   TRYING_RENDERED \<notin> set (map state (run world_static ''http://x'' start))"
proof -
  have a: "fetcher_of (state (start\<lparr>state := TRYING_STATIC\<rparr>)) = Some Direct \<and>
           normalise (fetch world_404 Direct ''http://x''
             (retries (start\<lparr>state := TRYING_STATIC\<rparr>))) = Failed (HttpStatus 404) \<and>
           fatal (HttpStatus 404)"
    by (simp add: world_404_def start_def)
  have b: "direct_serves world_static ''http://x''"
    by (simp add: direct_serves_def world_static_def)
  from a fatal_short_circuits
         [of "start\<lparr>state := TRYING_STATIC\<rparr>" Direct world_404 "''http://x''" "HttpStatus 404"]
  have "state (step world_404 ''http://x'' (start\<lparr>state := TRYING_STATIC\<rparr>)) = EXHAUSTED"
    and "run world_404 ''http://x'' (start\<lparr>state := TRYING_STATIC\<rparr>) =
           [start\<lparr>state := TRYING_STATIC\<rparr>,
            step world_404 ''http://x'' (start\<lparr>state := TRYING_STATIC\<rparr>)]"
    by blast+
  then have c: "map state (run world_404 ''http://x'' (start\<lparr>state := TRYING_STATIC\<rparr>)) =
                  [TRYING_STATIC, EXHAUSTED]"
    by simp
  from b fatal_short_circuits
         [of "start\<lparr>state := TRYING_STATIC\<rparr>" Direct world_static "''http://x''"
             "HttpStatus 404"]
  have e: "TRYING_RENDERED \<notin> set (map state (run world_static ''http://x'' start))"
    by blast
  from a b c e show ?thesis by (simp add: start_def)
qed

section \<open>Claim C3: retrieval is scoped to the project\<close>






section \<open>Claim C4: no content, no language model\<close>

text \<open>
  C4. For every project with no chunk in the index and every question, the chat turn
  answers with the fixed "no content available" text, the same for any two questions,
  grounds it in no chunk, and sends no prompt to the language model.
\<close>

theorem chat_without_content:
  "project_chunks (chunk_index e) pid = [] \<longrightarrow>
     answer (chat cfg lm e pid q) = no_content_answer \<and>
     answer (chat cfg lm e pid q) = answer (chat cfg lm e pid q') \<and>
     llm_calls (engine (chat cfg lm e pid q)) = llm_calls e \<and>
     grounding (chat cfg lm e pid q) = []"
  by (simp add: chat_def Let_def)

theorem chat_without_content_witness:
  "project_chunks (chunk_index toy_engine) 3 = [] \<and>
   answer (chat toy_retrieval toy_model toy_engine 3 ''what is it?'') = ''no content available'' \<and>
   llm_calls (engine (chat toy_retrieval toy_model toy_engine 3 ''what is it?'')) = [] \<and>
   llm_calls (engine (chat toy_retrieval toy_model toy_engine 1 ''abc'')) = [''gamalphaabc'']"
  using chat_without_content [of toy_engine 3 toy_retrieval toy_model "''what is it?''"]
  by (simp add: chat_def retrieve_def project_chunks_def ranked_def toy_retrieval_def
      toy_index_def toy_engine_def toy_model_def no_content_answer_def Let_def)

section \<open>Claim C6: the exports\<close>

subsection \<open>Numbers\<close>

lemma char_code_digit_char: "d < 10 \<Longrightarrow> char_code (digit_char d) = 48 + d"
  by (simp add: char_code_def digit_char_def)

lemma is_digit_digit_char: "d < 10 \<Longrightarrow> is_digit (digit_char d)"
  by (simp add: is_digit_def char_code_digit_char)




lemma nat_digits_first: "\<exists>d t. nat_digits n = d # t \<and> is_digit d"
proof (induction n rule: nat_digits.induct)
  case (1 n)
  show ?case
  proof (cases "n < 10")
    case True
    then show ?thesis by (subst nat_digits.simps) (simp add: is_digit_digit_char)
  next
    case False
    with 1 obtain d t where "nat_digits (n div 10) = d # t" "is_digit d" by blast
    with False show ?thesis by (subst nat_digits.simps) simp
  qed
qed




lemma not_digit_minus: "\<not> is_digit CHR ''-''"
  by (simp add: is_digit_def char_code_def)





subsection \<open>Strings\<close>













subsection \<open>White space and first characters\<close>



lemma skip_ws_nonspace: "\<not> is_space c \<Longrightarrow> skip_ws (c # s) = c # s"
  by simp




lemma opener_not_space: "opener c \<Longrightarrow> \<not> is_space c"
  by (auto simp: opener_def is_space_def is_digit_def)

lemma show_int_first: "\<exists>c t. show_int i = c # t \<and> (is_digit c \<or> char_code c = 45)"
proof (cases "i < 0")
  case True
  then show ?thesis by (simp add: show_int_def char_code_def)
next
  case False
  then show ?thesis using nat_digits_first [of "nat i"] by (auto simp: show_int_def)
qed

lemma stringify_at_first: "\<exists>c t. stringify_at l v = c # t \<and> opener c"
proof (cases v)
  case (JNumber i)
  then show ?thesis using show_int_first [of i] by (auto simp: opener_def)
qed (auto simp: opener_def char_code_def quote_def)

lemma skip_ws_stringify_at: "skip_ws (stringify_at l v @ s) = stringify_at l v @ s"
proof -
  obtain c t where "stringify_at l v = c # t" "opener c"
    using stringify_at_first by blast
  then show ?thesis by (simp add: opener_not_space)
qed


subsection \<open>Values\<close>
























lemma nat_digits_nonempty: "nat_digits n \<noteq> []"
  using nat_digits_first [of n] by auto




subsection \<open>The object of a result\<close>






subsection \<open>The markdown text\<close>






section \<open>Claim C8: form detection\<close>








end
